theory Spec2Isabelle
  imports Main "HOL-Library.Word"
begin

section \<open>The contract CrisisChatFHE (contracts/CrisisChatFHE.sol)\<close>

text \<open>
  A shallow embedding of the Solidity contract. Every public function of the contract is a
  HOL function from the storage before the call (and the call's arguments) to either an
  error (the transaction reverts and the storage is left as it was) or the storage after
  the call together with the events it emitted.

  \<^item> \<open>uint256\<close> values (identifiers, request identifiers, time stamps) are \<open>nat\<close>; the one
    arithmetic operation of the contract, \<open>messageCount += 1\<close>, is checked (Solidity 0.8)
    and its overflow is a branch of \<open>submitEncryptedMessage\<close>.
  \<^item> \<open>euint32\<close> is the \<open>bytes32\<close> handle of a ciphertext; the contract never looks inside
    it. The handle \<open>0\<close> is the value of a storage slot that was never written.
  \<^item> A Solidity \<open>mapping\<close> is a total function: a key that was never written reads as the
    zero value of the value type.
\<close>

subsection \<open>Storage\<close>

type_synonym address = nat
type_synonym euint32 = nat
type_synonym bytes = "8 word list"

text \<open>The field \<open>id\<close> of the struct is called \<open>id_m\<close> here (\<open>id\<close> is the identity of HOL).\<close>

record EncryptedMessage =
  id_m :: nat
  encryptedContent :: euint32
  encryptedRiskScore :: euint32
  timestamp :: nat
  isHighRisk :: bool

record DecryptedAlert =
  content :: string
  riskScore :: nat
  isDecrypted :: bool

record storage =
  messageCount :: nat
  encryptedMessages :: "nat \<Rightarrow> EncryptedMessage"
  decryptedAlerts :: "nat \<Rightarrow> DecryptedAlert"
  encryptedThreshold :: euint32
  requestToMessageId :: "nat \<Rightarrow> nat"
  counselor :: address
  thresholdSet :: bool

datatype event =
    MessageSubmitted nat nat
  | RiskAssessmentComplete nat bool
  | AlertGenerated nat
  | DecryptionRequested nat
  | AlertDecrypted nat

text \<open>
  The reverts of the contract, named after the strings of its \<open>require\<close> statements:
  "Unauthorized", "Threshold already set", "Invalid request", "Not high risk" and
  "Already decrypted". \<open>InvalidProof\<close> is the revert of \<open>FHE.checkSignatures\<close>,
  \<open>DecodeFailure\<close> the revert of \<open>abi.decode\<close> on a payload of the wrong shape, and
  \<open>Overflow\<close> the panic of the checked addition.
\<close>

datatype error =
    Unauthorized
  | ThresholdAlreadySet
  | InvalidRequest
  | NotHighRisk
  | AlreadyDecrypted
  | InvalidProof
  | DecodeFailure
  | Overflow

type_synonym 'a result = "error + 'a"

subsection \<open>The library the contract calls\<close>

text \<open>
  The FHE library and the ABI decoder are not part of the contract. What the contract
  uses of them is taken as a parameter: whether \<open>FHE.checkSignatures\<close> accepts a callback
  (it reverts otherwise), and what \<open>abi.decode\<close> makes of a payload (\<open>None\<close> when it
  reverts). The request identifier that \<open>FHE.requestDecryption\<close> returns is an argument
  \<open>reqId\<close> of the two functions that issue a request; the functions are modelled for the
  case that this library call returns.
\<close>

record fhe =
  checkSignatures :: "nat \<Rightarrow> bytes \<Rightarrow> bytes \<Rightarrow> bool"
  decodeBool :: "bytes \<Rightarrow> bool option"
  decodeString :: "bytes \<Rightarrow> string option"

subsection \<open>Zero values and the constructor\<close>

definition zeroMessage :: EncryptedMessage where
  "zeroMessage =
     \<lparr>id_m = 0, encryptedContent = 0, encryptedRiskScore = 0, timestamp = 0,
      isHighRisk = False\<rparr>"

definition zeroAlert :: DecryptedAlert where
  "zeroAlert = \<lparr>content = [], riskScore = 0, isDecrypted = False\<rparr>"

definition constructor :: "address \<Rightarrow> storage" where
  "constructor sender =
     \<lparr>messageCount = 0,
      encryptedMessages = (\<lambda>_. zeroMessage),
      decryptedAlerts = (\<lambda>_. zeroAlert),
      encryptedThreshold = 0,
      requestToMessageId = (\<lambda>_. 0),
      counselor = sender,
      thresholdSet = False\<rparr>"

subsection \<open>The functions of the contract\<close>

definition setEncryptedThreshold ::
  "storage \<Rightarrow> address \<Rightarrow> euint32 \<Rightarrow> (storage \<times> event list) result" where
  "setEncryptedThreshold s sender t =
     (if sender \<noteq> counselor s then Inl Unauthorized
      else if thresholdSet s then Inl ThresholdAlreadySet
      else Inr (s\<lparr>encryptedThreshold := t, thresholdSet := True\<rparr>, []))"

text \<open>
  \<open>_assessRisk\<close>: the comparison \<open>FHE.gt\<close> of the score with the stored threshold yields a
  handle that goes to \<open>FHE.requestDecryption\<close>; the identifier \<open>reqId\<close> that comes back is
  entered in \<open>requestToMessageId\<close>. Nothing here reads \<open>thresholdSet\<close>.
\<close>

definition assessRisk :: "storage \<Rightarrow> nat \<Rightarrow> nat \<Rightarrow> storage \<times> event list" where
  "assessRisk s messageId reqId =
     (s\<lparr>requestToMessageId := (requestToMessageId s)(reqId := messageId)\<rparr>,
      [DecryptionRequested messageId])"

definition submitEncryptedMessage ::
  "storage \<Rightarrow> euint32 \<Rightarrow> euint32 \<Rightarrow> nat \<Rightarrow> nat \<Rightarrow> (storage \<times> event list) result" where
  "submitEncryptedMessage s encContent encRiskScore now reqId =
     (if 2 ^ 256 \<le> messageCount s + 1 then Inl Overflow
      else
        let newId = messageCount s + 1;
            s1 = s\<lparr>messageCount := newId\<rparr>;
            s2 = s1\<lparr>encryptedMessages := (encryptedMessages s1)(newId :=
                   \<lparr>id_m = newId, encryptedContent = encContent,
                    encryptedRiskScore = encRiskScore, timestamp = now,
                    isHighRisk = False\<rparr>)\<rparr>;
            s3 = s2\<lparr>decryptedAlerts := (decryptedAlerts s2)(newId :=
                   \<lparr>content = [], riskScore = 0, isDecrypted = False\<rparr>)\<rparr>;
            r = assessRisk s3 newId reqId
        in Inr (fst r, MessageSubmitted newId now # snd r))"

definition handleRiskAssessment ::
  "fhe \<Rightarrow> storage \<Rightarrow> nat \<Rightarrow> bytes \<Rightarrow> bytes \<Rightarrow> (storage \<times> event list) result" where
  "handleRiskAssessment lib s requestId cleartexts proof =
     (let messageId = requestToMessageId s requestId in
      if messageId = 0 then Inl InvalidRequest
      else if \<not> checkSignatures lib requestId cleartexts proof then Inl InvalidProof
      else case decodeBool lib cleartexts of
        None \<Rightarrow> Inl DecodeFailure
      | Some high \<Rightarrow>
          Inr (s\<lparr>encryptedMessages := (encryptedMessages s)(messageId :=
                   (encryptedMessages s messageId)\<lparr>isHighRisk := high\<rparr>)\<rparr>,
               RiskAssessmentComplete messageId high #
                 (if high then [AlertGenerated messageId] else [])))"

definition requestAlertDecryption ::
  "storage \<Rightarrow> address \<Rightarrow> nat \<Rightarrow> nat \<Rightarrow> (storage \<times> event list) result" where
  "requestAlertDecryption s sender messageId reqId =
     (if sender \<noteq> counselor s then Inl Unauthorized
      else if \<not> isHighRisk (encryptedMessages s messageId) then Inl NotHighRisk
      else if isDecrypted (decryptedAlerts s messageId) then Inl AlreadyDecrypted
      else Inr (s\<lparr>requestToMessageId := (requestToMessageId s)(reqId := messageId)\<rparr>,
                [DecryptionRequested messageId]))"

definition handleAlertDecryption ::
  "fhe \<Rightarrow> storage \<Rightarrow> nat \<Rightarrow> bytes \<Rightarrow> bytes \<Rightarrow> (storage \<times> event list) result" where
  "handleAlertDecryption lib s requestId cleartexts proof =
     (let messageId = requestToMessageId s requestId in
      if messageId = 0 then Inl InvalidRequest
      else if \<not> isHighRisk (encryptedMessages s messageId) then Inl NotHighRisk
      else if \<not> checkSignatures lib requestId cleartexts proof then Inl InvalidProof
      else case decodeString lib cleartexts of
        None \<Rightarrow> Inl DecodeFailure
      | Some text \<Rightarrow>
          Inr (s\<lparr>decryptedAlerts := (decryptedAlerts s)(messageId :=
                   \<lparr>content = text, riskScore = 0, isDecrypted = True\<rparr>)\<rparr>,
               [AlertDecrypted messageId]))"

definition getDecryptedAlert :: "storage \<Rightarrow> address \<Rightarrow> nat \<Rightarrow> (string \<times> bool) result" where
  "getDecryptedAlert s sender messageId =
     (if sender \<noteq> counselor s then Inl Unauthorized
      else Inr (content (decryptedAlerts s messageId),
                isDecrypted (decryptedAlerts s messageId)))"

text \<open>
  The getter that Solidity generates for the public mapping \<open>encryptedMessages\<close>: it has
  no \<open>require\<close> and returns the fields stored under the key.
\<close>

definition getEncryptedMessage :: "storage \<Rightarrow> nat \<Rightarrow> EncryptedMessage result" where
  "getEncryptedMessage s messageId = Inr (encryptedMessages s messageId)"

subsection \<open>Transactions and runs\<close>

text \<open>
  A call of a state-changing function, with the sender where the function reads
  \<open>msg.sender\<close>, the block time where it reads \<open>block.timestamp\<close>, and the request
  identifier the library hands out where it issues a request.
\<close>

datatype call =
    SetEncryptedThreshold address euint32
  | SubmitEncryptedMessage euint32 euint32 nat nat
  | HandleRiskAssessment nat bytes bytes
  | RequestAlertDecryption address nat nat
  | HandleAlertDecryption nat bytes bytes

fun exec :: "fhe \<Rightarrow> storage \<Rightarrow> call \<Rightarrow> (storage \<times> event list) result" where
  "exec lib s (SetEncryptedThreshold sender t) = setEncryptedThreshold s sender t"
| "exec lib s (SubmitEncryptedMessage c r now reqId) = submitEncryptedMessage s c r now reqId"
| "exec lib s (HandleRiskAssessment requestId cleartexts proof) =
     handleRiskAssessment lib s requestId cleartexts proof"
| "exec lib s (RequestAlertDecryption sender messageId reqId) =
     requestAlertDecryption s sender messageId reqId"
| "exec lib s (HandleAlertDecryption requestId cleartexts proof) =
     handleAlertDecryption lib s requestId cleartexts proof"

text \<open>A transaction that reverts leaves the storage as it was and emits nothing.\<close>

definition transact :: "fhe \<Rightarrow> storage \<Rightarrow> call \<Rightarrow> storage \<times> event list" where
  "transact lib s c = (case exec lib s c of Inl e \<Rightarrow> (s, []) | Inr r \<Rightarrow> r)"

fun run :: "fhe \<Rightarrow> storage \<Rightarrow> call list \<Rightarrow> storage \<times> event list" where
  "run lib s [] = (s, [])"
| "run lib s (c # cs) =
     (let r = transact lib s c; r' = run lib (fst r) cs in (fst r', snd r @ snd r'))"

text \<open>The storage and the log after a list of transactions on a freshly deployed contract.\<close>

definition after :: "fhe \<Rightarrow> address \<Rightarrow> call list \<Rightarrow> storage" where
  "after lib deployer cs = fst (run lib (constructor deployer) cs)"

definition logged :: "fhe \<Rightarrow> address \<Rightarrow> call list \<Rightarrow> event list" where
  "logged lib deployer cs = snd (run lib (constructor deployer) cs)"

fun submittedIds :: "event list \<Rightarrow> nat list" where
  "submittedIds [] = []"
| "submittedIds (MessageSubmitted i t # es) = i # submittedIds es"
| "submittedIds (e # es) = submittedIds es"

text \<open>
  A library for running the contract on concrete inputs: it accepts the proof \<open>[1]\<close>
  only, decodes the payload \<open>[1]\<close> as \<open>true\<close> and \<open>[0]\<close> as \<open>false\<close>, and knows two
  text payloads, \<open>[104, 105]\<close> for "hi" and \<open>[110, 111]\<close> for "no".
\<close>

definition demoLib :: fhe where
  "demoLib =
     \<lparr>checkSignatures = (\<lambda>requestId cleartexts proof. proof = [1]),
      decodeBool = (\<lambda>b. if b = [1] then Some True else if b = [0] then Some False else None),
      decodeString = (\<lambda>b. if b = [104, 105] then Some ''hi''
                            else if b = [110, 111] then Some ''no'' else None)\<rparr>"

subsection \<open>The storage invariant\<close>

text \<open>
  What holds of the storage after any list of transactions on a freshly deployed contract:
  the keys \<open>0\<close> and those above \<open>messageCount\<close> were never written, every entry of
  \<open>requestToMessageId\<close> names an allocated identifier (or is \<open>0\<close>), and an alert that is
  not decrypted has no content.
\<close>

definition wellformed :: "storage \<Rightarrow> bool" where
  "wellformed s \<longleftrightarrow>
     (\<forall>i. i = 0 \<or> messageCount s < i \<longrightarrow>
        encryptedMessages s i = zeroMessage \<and> decryptedAlerts s i = zeroAlert) \<and>
     (\<forall>r. requestToMessageId s r \<le> messageCount s) \<and>
     (\<forall>i. \<not> isDecrypted (decryptedAlerts s i) \<longrightarrow> content (decryptedAlerts s i) = [])"

section \<open>Properties of the functions and of runs\<close>

subsection \<open>What a successful call did\<close>

lemma handleRiskAssessment_Inr:
  assumes "handleRiskAssessment lib s q c p = Inr (s', evs)"
  obtains high where "requestToMessageId s q \<noteq> 0"
    and "checkSignatures lib q c p" and "decodeBool lib c = Some high"
    and "s' = s\<lparr>encryptedMessages := (encryptedMessages s)(requestToMessageId s q :=
                 (encryptedMessages s (requestToMessageId s q))\<lparr>isHighRisk := high\<rparr>)\<rparr>"
    and "evs = RiskAssessmentComplete (requestToMessageId s q) high #
                 (if high then [AlertGenerated (requestToMessageId s q)] else [])"
  using assms
  by (auto simp: handleRiskAssessment_def Let_def split: if_splits option.splits)

lemma handleAlertDecryption_Inr:
  assumes "handleAlertDecryption lib s q c p = Inr (s', evs)"
  obtains plain where "requestToMessageId s q \<noteq> 0"
    and "isHighRisk (encryptedMessages s (requestToMessageId s q))"
    and "checkSignatures lib q c p" and "decodeString lib c = Some plain"
    and "s' = s\<lparr>decryptedAlerts := (decryptedAlerts s)(requestToMessageId s q :=
                 \<lparr>content = plain, riskScore = 0, isDecrypted = True\<rparr>)\<rparr>"
    and "evs = [AlertDecrypted (requestToMessageId s q)]"
  using assms
  by (auto simp: handleAlertDecryption_def Let_def split: if_splits option.splits)

lemma requestAlertDecryption_Inr:
  assumes "requestAlertDecryption s a m q = Inr (s', evs)"
  shows "a = counselor s \<and> isHighRisk (encryptedMessages s m) \<and>
         \<not> isDecrypted (decryptedAlerts s m) \<and>
         s' = s\<lparr>requestToMessageId := (requestToMessageId s)(q := m)\<rparr> \<and>
         evs = [DecryptionRequested m]"
  using assms by (auto simp: requestAlertDecryption_def split: if_splits)

lemma setEncryptedThreshold_Inr:
  assumes "setEncryptedThreshold s a t = Inr (s', evs)"
  shows "a = counselor s \<and> \<not> thresholdSet s \<and>
         s' = s\<lparr>encryptedThreshold := t, thresholdSet := True\<rparr> \<and> evs = []"
  using assms by (auto simp: setEncryptedThreshold_def split: if_splits)

lemma submitEncryptedMessage_Inr:
  assumes "submitEncryptedMessage s c r now q = Inr (s', evs)"
  shows "messageCount s + 1 < 2 ^ 256 \<and>
         s' = s\<lparr>messageCount := messageCount s + 1,
                encryptedMessages := (encryptedMessages s)(messageCount s + 1 :=
                  \<lparr>id_m = messageCount s + 1, encryptedContent = c, encryptedRiskScore = r,
                   timestamp = now, isHighRisk = False\<rparr>),
                decryptedAlerts := (decryptedAlerts s)(messageCount s + 1 :=
                  \<lparr>content = [], riskScore = 0, isDecrypted = False\<rparr>),
                requestToMessageId := (requestToMessageId s)(q := messageCount s + 1)\<rparr> \<and>
         evs = [MessageSubmitted (messageCount s + 1) now,
                DecryptionRequested (messageCount s + 1)]"
  using assms
  by (auto simp: submitEncryptedMessage_def assessRisk_def Let_def split: if_splits)

subsection \<open>The invariant holds after every run\<close>

lemma wellformedI:
  assumes "\<And>i. i = 0 \<or> messageCount s < i \<Longrightarrow>
             encryptedMessages s i = zeroMessage \<and> decryptedAlerts s i = zeroAlert"
    and "\<And>r. requestToMessageId s r \<le> messageCount s"
    and "\<And>i. \<not> isDecrypted (decryptedAlerts s i) \<Longrightarrow> content (decryptedAlerts s i) = []"
  shows "wellformed s"
  using assms unfolding wellformed_def by blast

lemma wellformed_unallocated:
  "wellformed s \<Longrightarrow> i = 0 \<or> messageCount s < i \<Longrightarrow>
     encryptedMessages s i = zeroMessage \<and> decryptedAlerts s i = zeroAlert"
  unfolding wellformed_def by blast

lemma wellformed_request: "wellformed s \<Longrightarrow> requestToMessageId s r \<le> messageCount s"
  unfolding wellformed_def by blast

lemma wellformed_content:
  "wellformed s \<Longrightarrow> \<not> isDecrypted (decryptedAlerts s i) \<Longrightarrow> content (decryptedAlerts s i) = []"
  unfolding wellformed_def by blast

lemma wellformed_constructor: "wellformed (constructor d)"
  by (simp add: wellformed_def constructor_def zeroAlert_def)

lemma wellformed_setEncryptedThreshold:
  "wellformed s \<Longrightarrow> setEncryptedThreshold s a t = Inr (s', evs) \<Longrightarrow> wellformed s'"
  by (auto simp: wellformed_def setEncryptedThreshold_def split: if_splits)

lemma wellformed_submitEncryptedMessage:
  "wellformed s \<Longrightarrow> submitEncryptedMessage s c r now q = Inr (s', evs) \<Longrightarrow> wellformed s'"
  by (auto simp: wellformed_def submitEncryptedMessage_def assessRisk_def Let_def le_Suc_eq
      split: if_splits)

lemma wellformed_handleRiskAssessment:
  assumes wf: "wellformed s" and ok: "handleRiskAssessment lib s q c p = Inr (s', evs)"
  shows "wellformed s'"
proof -
  from ok obtain high where nz: "requestToMessageId s q \<noteq> 0"
    and s': "s' = s\<lparr>encryptedMessages := (encryptedMessages s)(requestToMessageId s q :=
                 (encryptedMessages s (requestToMessageId s q))\<lparr>isHighRisk := high\<rparr>)\<rparr>"
    by (rule handleRiskAssessment_Inr)
  have le: "requestToMessageId s q \<le> messageCount s"
    by (rule wellformed_request [OF wf])
  show ?thesis
  proof (rule wellformedI)
    fix i
    assume i: "i = 0 \<or> messageCount s' < i"
    with nz le have "i \<noteq> requestToMessageId s q"
      by (auto simp: s')
    with wellformed_unallocated [OF wf, of i] i
    show "encryptedMessages s' i = zeroMessage \<and> decryptedAlerts s' i = zeroAlert"
      by (simp add: s')
  next
    fix r
    show "requestToMessageId s' r \<le> messageCount s'"
      using wellformed_request [OF wf, of r] by (simp add: s')
  next
    fix i
    assume "\<not> isDecrypted (decryptedAlerts s' i)"
    then show "content (decryptedAlerts s' i) = []"
      using wellformed_content [OF wf, of i] by (simp add: s')
  qed
qed

lemma wellformed_requestAlertDecryption:
  assumes wf: "wellformed s" and ok: "requestAlertDecryption s a m q = Inr (s', evs)"
  shows "wellformed s'"
proof -
  from requestAlertDecryption_Inr [OF ok]
  have high: "isHighRisk (encryptedMessages s m)"
    and s': "s' = s\<lparr>requestToMessageId := (requestToMessageId s)(q := m)\<rparr>"
    by simp_all
  have le: "m \<le> messageCount s"
  proof (rule ccontr)
    assume "\<not> m \<le> messageCount s"
    with wellformed_unallocated [OF wf, of m] have "encryptedMessages s m = zeroMessage"
      by simp
    with high show False by (simp add: zeroMessage_def)
  qed
  show ?thesis
  proof (rule wellformedI)
    fix i
    assume "i = 0 \<or> messageCount s' < i"
    then show "encryptedMessages s' i = zeroMessage \<and> decryptedAlerts s' i = zeroAlert"
      using wellformed_unallocated [OF wf, of i] by (simp add: s')
  next
    fix r
    show "requestToMessageId s' r \<le> messageCount s'"
      using wellformed_request [OF wf, of r] le by (simp add: s')
  next
    fix i
    assume "\<not> isDecrypted (decryptedAlerts s' i)"
    then show "content (decryptedAlerts s' i) = []"
      using wellformed_content [OF wf, of i] by (simp add: s')
  qed
qed

lemma wellformed_handleAlertDecryption:
  assumes wf: "wellformed s" and ok: "handleAlertDecryption lib s q c p = Inr (s', evs)"
  shows "wellformed s'"
proof -
  from ok obtain plain where nz: "requestToMessageId s q \<noteq> 0"
    and s': "s' = s\<lparr>decryptedAlerts := (decryptedAlerts s)(requestToMessageId s q :=
                 \<lparr>content = plain, riskScore = 0, isDecrypted = True\<rparr>)\<rparr>"
    by (rule handleAlertDecryption_Inr)
  have le: "requestToMessageId s q \<le> messageCount s"
    by (rule wellformed_request [OF wf])
  show ?thesis
  proof (rule wellformedI)
    fix i
    assume i: "i = 0 \<or> messageCount s' < i"
    with nz le have "i \<noteq> requestToMessageId s q"
      by (auto simp: s')
    with wellformed_unallocated [OF wf, of i] i
    show "encryptedMessages s' i = zeroMessage \<and> decryptedAlerts s' i = zeroAlert"
      by (simp add: s')
  next
    fix r
    show "requestToMessageId s' r \<le> messageCount s'"
      using wellformed_request [OF wf, of r] by (simp add: s')
  next
    fix i
    assume "\<not> isDecrypted (decryptedAlerts s' i)"
    then show "content (decryptedAlerts s' i) = []"
      using wellformed_content [OF wf, of i] by (simp add: s' split: if_splits)
  qed
qed

lemma wellformed_exec: "wellformed s \<Longrightarrow> exec lib s c = Inr (s', evs) \<Longrightarrow> wellformed s'"
  by (cases c)
    (auto dest: wellformed_setEncryptedThreshold wellformed_submitEncryptedMessage
      wellformed_handleRiskAssessment wellformed_requestAlertDecryption
      wellformed_handleAlertDecryption)

lemma wellformed_transact: "wellformed s \<Longrightarrow> wellformed (fst (transact lib s c))"
  by (auto simp: transact_def split: sum.splits dest: wellformed_exec)

lemma wellformed_run: "wellformed s \<Longrightarrow> wellformed (fst (run lib s cs))"
  by (induction cs arbitrary: s) (auto simp: Let_def wellformed_transact)

lemma wellformed_after: "wellformed (after lib d cs)"
  by (simp add: after_def wellformed_run wellformed_constructor)

lemma run_append:
  "run lib s (cs @ cs') =
     (fst (run lib (fst (run lib s cs)) cs'), snd (run lib s cs) @ snd (run lib (fst (run lib s cs)) cs'))"
  by (induction cs arbitrary: s) (auto simp: Let_def)

lemma after_append: "after lib d (cs @ cs') = fst (run lib (after lib d cs) cs')"
  by (simp add: after_def run_append)

subsection \<open>What no transaction changes\<close>

lemma exec_counselor: "exec lib s c = Inr (s', evs) \<Longrightarrow> counselor s' = counselor s"
  by (cases c)
    (auto dest!: setEncryptedThreshold_Inr submitEncryptedMessage_Inr
      requestAlertDecryption_Inr elim!: handleRiskAssessment_Inr handleAlertDecryption_Inr)

lemma transact_counselor: "counselor (fst (transact lib s c)) = counselor s"
  by (auto simp: transact_def split: sum.splits dest: exec_counselor)

lemma run_counselor: "counselor (fst (run lib s cs)) = counselor s"
  by (induction cs arbitrary: s) (simp_all add: Let_def transact_counselor)

lemma after_counselor: "counselor (after lib d cs) = d"
  by (simp add: after_def run_counselor) (simp add: constructor_def)

lemma exec_threshold:
  "thresholdSet s \<Longrightarrow> exec lib s c = Inr (s', evs) \<Longrightarrow>
     thresholdSet s' \<and> encryptedThreshold s' = encryptedThreshold s"
  by (cases c)
    (auto dest!: setEncryptedThreshold_Inr submitEncryptedMessage_Inr
      requestAlertDecryption_Inr elim!: handleRiskAssessment_Inr handleAlertDecryption_Inr)

lemma transact_threshold:
  "thresholdSet s \<Longrightarrow>
     thresholdSet (fst (transact lib s c)) \<and>
     encryptedThreshold (fst (transact lib s c)) = encryptedThreshold s"
  by (auto simp: transact_def split: sum.splits dest: exec_threshold)

lemma run_threshold:
  "thresholdSet s \<Longrightarrow>
     thresholdSet (fst (run lib s cs)) \<and>
     encryptedThreshold (fst (run lib s cs)) = encryptedThreshold s"
proof (induction cs arbitrary: s)
  case Nil
  then show ?case by simp
next
  case (Cons c cs)
  from transact_threshold [OF Cons.prems, of lib c] Cons.IH [of "fst (transact lib s c)"]
  show ?case by (simp add: Let_def)
qed

lemma exec_threshold_change:
  "exec lib s c = Inr (s', evs) \<Longrightarrow> encryptedThreshold s' \<noteq> encryptedThreshold s \<Longrightarrow>
     \<not> thresholdSet s \<and> c = SetEncryptedThreshold (counselor s) (encryptedThreshold s')"
  by (cases c)
    (auto dest!: setEncryptedThreshold_Inr submitEncryptedMessage_Inr
      requestAlertDecryption_Inr elim!: handleRiskAssessment_Inr handleAlertDecryption_Inr)

lemma submittedIds_append: "submittedIds (xs @ ys) = submittedIds xs @ submittedIds ys"
  by (induction xs rule: submittedIds.induct) simp_all

lemma exec_submittedIds:
  "exec lib s c = Inr (s', evs) \<Longrightarrow>
     messageCount s \<le> messageCount s' \<and>
     submittedIds evs = [Suc (messageCount s) ..< Suc (messageCount s')]"
  by (cases c)
    (auto dest!: setEncryptedThreshold_Inr submitEncryptedMessage_Inr
      requestAlertDecryption_Inr elim!: handleRiskAssessment_Inr handleAlertDecryption_Inr)

lemma transact_submittedIds:
  "messageCount s \<le> messageCount (fst (transact lib s c)) \<and>
   submittedIds (snd (transact lib s c)) =
     [Suc (messageCount s) ..< Suc (messageCount (fst (transact lib s c)))]"
  by (auto simp: transact_def split: sum.splits dest: exec_submittedIds)

lemma upt_join: "i \<le> j \<Longrightarrow> j \<le> k \<Longrightarrow> [i ..< j] @ [j ..< k] = [i ..< k]"
  by (metis le_Suc_ex upt_add_eq_append)

lemma run_submittedIds:
  "messageCount s \<le> messageCount (fst (run lib s cs)) \<and>
   submittedIds (snd (run lib s cs)) =
     [Suc (messageCount s) ..< Suc (messageCount (fst (run lib s cs)))]"
proof (induction cs arbitrary: s)
  case Nil
  then show ?case by simp
next
  case (Cons c cs)
  let ?s1 = "fst (transact lib s c)"
  let ?s2 = "fst (run lib ?s1 cs)"
  have one: "messageCount s \<le> messageCount ?s1"
    "submittedIds (snd (transact lib s c)) = [Suc (messageCount s) ..< Suc (messageCount ?s1)]"
    using transact_submittedIds [of s lib c] by simp_all
  have rest: "messageCount ?s1 \<le> messageCount ?s2"
    "submittedIds (snd (run lib ?s1 cs)) = [Suc (messageCount ?s1) ..< Suc (messageCount ?s2)]"
    using Cons.IH [of ?s1] by simp_all
  from one rest show ?case
    by (simp add: Let_def submittedIds_append upt_join del: upt_Suc)
qed

lemma exec_request:
  assumes wf: "wellformed s" and ok: "exec lib s c = Inr (s', evs)"
    and nz: "requestToMessageId s r \<noteq> 0"
  shows "requestToMessageId s' r \<noteq> 0"
proof (cases c)
  case (RequestAlertDecryption a m q)
  with ok have *: "isHighRisk (encryptedMessages s m)"
    "s' = s\<lparr>requestToMessageId := (requestToMessageId s)(q := m)\<rparr>"
    by (auto dest!: requestAlertDecryption_Inr)
  from wellformed_unallocated [OF wf, of m] *(1) have "m \<noteq> 0"
    by (cases "m = 0") (simp_all add: zeroMessage_def)
  with nz *(2) show ?thesis by simp
qed (use ok nz in \<open>auto dest!: setEncryptedThreshold_Inr submitEncryptedMessage_Inr
      elim!: handleRiskAssessment_Inr handleAlertDecryption_Inr\<close>)

lemma run_request:
  "wellformed s \<Longrightarrow> requestToMessageId s r \<noteq> 0 \<Longrightarrow>
     requestToMessageId (fst (run lib s cs)) r \<noteq> 0"
proof (induction cs arbitrary: s)
  case Nil
  then show ?case by simp
next
  case (Cons c cs)
  have "requestToMessageId (fst (transact lib s c)) r \<noteq> 0"
    using Cons.prems by (auto simp: transact_def split: sum.splits dest: exec_request)
  with Cons.IH [of "fst (transact lib s c)"] wellformed_transact [OF Cons.prems(1), of lib c]
  show ?case by (simp add: Let_def)
qed

lemma exec_isDecrypted:
  assumes wf: "wellformed s" and ok: "exec lib s c = Inr (s', evs)"
    and dec: "isDecrypted (decryptedAlerts s m)"
  shows "isDecrypted (decryptedAlerts s' m)"
proof (cases c)
  case (SubmitEncryptedMessage x y now q)
  from wellformed_unallocated [OF wf, of m] dec have "m \<noteq> messageCount s + 1"
    by (cases "m = messageCount s + 1") (simp_all add: zeroAlert_def)
  with ok dec SubmitEncryptedMessage show ?thesis
    by (auto dest!: submitEncryptedMessage_Inr)
qed (use ok dec in \<open>auto dest!: setEncryptedThreshold_Inr requestAlertDecryption_Inr
      elim!: handleRiskAssessment_Inr handleAlertDecryption_Inr\<close>)

lemma run_isDecrypted:
  "wellformed s \<Longrightarrow> isDecrypted (decryptedAlerts s m) \<Longrightarrow>
     isDecrypted (decryptedAlerts (fst (run lib s cs)) m)"
proof (induction cs arbitrary: s)
  case Nil
  then show ?case by simp
next
  case (Cons c cs)
  have "isDecrypted (decryptedAlerts (fst (transact lib s c)) m)"
    using Cons.prems by (auto simp: transact_def split: sum.splits dest: exec_isDecrypted)
  with Cons.IH [of "fst (transact lib s c)"] wellformed_transact [OF Cons.prems(1), of lib c]
  show ?case by (simp add: Let_def)
qed

lemma handleRiskAssessment_InvalidRequest:
  "handleRiskAssessment lib s r c p = Inl InvalidRequest \<longleftrightarrow> requestToMessageId s r = 0"
  by (simp add: handleRiskAssessment_def Let_def split: option.splits)

subsection \<open>Unfolding the contract on concrete inputs\<close>

lemmas contract_defs =
  after_def logged_def transact_def constructor_def demoLib_def Let_def
  setEncryptedThreshold_def submitEncryptedMessage_def assessRisk_def
  handleRiskAssessment_def requestAlertDecryption_def handleAlertDecryption_def
  getDecryptedAlert_def getEncryptedMessage_def

section \<open>The claims\<close>

subsection \<open>C1: a resolved request and a second callback\<close>

text \<open>
  C1 as stated: after \<open>handleRiskAssessment\<close> has succeeded for a request identifier, a
  second call with that identifier fails with "Invalid request". On the contract it does
  not: the record 1 is submitted with request 5, the callback for 5 marks it high-risk, and
  a second callback for 5 with the payload \<open>false\<close> is accepted too and takes the mark away.
\<close>

theorem resolved_request_counterexample:
  "handleRiskAssessment demoLib
     (after demoLib 1 [SubmitEncryptedMessage 11 22 1000 5]) 5 [1] [1] =
   Inr (after demoLib 1 [SubmitEncryptedMessage 11 22 1000 5, HandleRiskAssessment 5 [1] [1]],
        [RiskAssessmentComplete 1 True, AlertGenerated 1]) \<and>
   handleRiskAssessment demoLib
     (after demoLib 1 [SubmitEncryptedMessage 11 22 1000 5, HandleRiskAssessment 5 [1] [1]])
     5 [0] [1] =
   Inr (after demoLib 1 [SubmitEncryptedMessage 11 22 1000 5, HandleRiskAssessment 5 [0] [1]],
        [RiskAssessmentComplete 1 False]) \<and>
   handleRiskAssessment demoLib
     (after demoLib 1 [SubmitEncryptedMessage 11 22 1000 5, HandleRiskAssessment 5 [1] [1]])
     5 [0] [1] \<noteq> Inl InvalidRequest"
  by (simp add: contract_defs)

text \<open>
  C1, amended: \<open>handleRiskAssessment\<close> fails with "Invalid request" exactly when
  \<open>requestToMessageId[requestId]\<close> is 0. A successful call leaves \<open>requestToMessageId\<close> as it
  was, so the same callback is accepted again with the same result, and after any further
  transactions a callback for that identifier is still not rejected as an invalid request.
\<close>

theorem resolved_request_is_kept:
  assumes ok: "handleRiskAssessment lib (after lib d cs) requestId cleartexts proof = Inr (s', evs)"
  shows "requestToMessageId s' = requestToMessageId (after lib d cs) \<and>
         handleRiskAssessment lib s' requestId cleartexts proof = Inr (s', evs) \<and>
         handleRiskAssessment lib (fst (run lib s' cs')) requestId cleartexts2 proof2
           \<noteq> Inl InvalidRequest \<and>
         (handleRiskAssessment lib s r c p = Inl InvalidRequest \<longleftrightarrow>
            requestToMessageId s r = 0)"
proof -
  let ?s = "after lib d cs"
  from ok obtain high where nz: "requestToMessageId ?s requestId \<noteq> 0"
    and sig: "checkSignatures lib requestId cleartexts proof"
    and dec: "decodeBool lib cleartexts = Some high"
    and s': "s' = ?s\<lparr>encryptedMessages := (encryptedMessages ?s)(requestToMessageId ?s requestId :=
                 (encryptedMessages ?s (requestToMessageId ?s requestId))\<lparr>isHighRisk := high\<rparr>)\<rparr>"
    and evs: "evs = RiskAssessmentComplete (requestToMessageId ?s requestId) high #
                 (if high then [AlertGenerated (requestToMessageId ?s requestId)] else [])"
    by (rule handleRiskAssessment_Inr)
  have same: "requestToMessageId s' = requestToMessageId ?s"
    by (simp add: s')
  have again: "handleRiskAssessment lib s' requestId cleartexts proof = Inr (s', evs)"
    using nz sig dec by (simp add: handleRiskAssessment_def Let_def same evs) (simp add: s')
  have "wellformed s'"
    using wellformed_after ok by (rule wellformed_handleRiskAssessment)
  then have "requestToMessageId (fst (run lib s' cs')) requestId \<noteq> 0"
    using nz by (simp add: run_request same)
  then have later: "handleRiskAssessment lib (fst (run lib s' cs')) requestId cleartexts2 proof2
      \<noteq> Inl InvalidRequest"
    by (simp add: handleRiskAssessment_InvalidRequest)
  from same again later show ?thesis
    by (simp add: handleRiskAssessment_InvalidRequest)
qed

theorem resolved_request_is_kept_witness:
  "handleRiskAssessment demoLib
     (after demoLib 1 [SubmitEncryptedMessage 11 22 1000 5]) 5 [1] [1] =
   Inr (after demoLib 1 [SubmitEncryptedMessage 11 22 1000 5, HandleRiskAssessment 5 [1] [1]],
        [RiskAssessmentComplete 1 True, AlertGenerated 1]) \<and>
   requestToMessageId
     (after demoLib 1 [SubmitEncryptedMessage 11 22 1000 5, HandleRiskAssessment 5 [1] [1]]) 5 = 1 \<and>
   handleRiskAssessment demoLib
     (after demoLib 1 [SubmitEncryptedMessage 11 22 1000 5, HandleRiskAssessment 5 [1] [1]])
     5 [1] [1] =
   Inr (after demoLib 1 [SubmitEncryptedMessage 11 22 1000 5, HandleRiskAssessment 5 [1] [1]],
        [RiskAssessmentComplete 1 True, AlertGenerated 1])"
proof -
  have h: "handleRiskAssessment demoLib
      (after demoLib 1 [SubmitEncryptedMessage 11 22 1000 5]) 5 [1] [1] =
    Inr (after demoLib 1 [SubmitEncryptedMessage 11 22 1000 5, HandleRiskAssessment 5 [1] [1]],
         [RiskAssessmentComplete 1 True, AlertGenerated 1])"
    by (simp add: contract_defs)
  have r: "requestToMessageId (after demoLib 1 [SubmitEncryptedMessage 11 22 1000 5]) 5 = 1"
    by (simp add: contract_defs)
  from resolved_request_is_kept [OF h] h r show ?thesis
    by simp
qed

subsection \<open>C2: a submission before the threshold is set\<close>

text \<open>
  C2 as stated: a submission made before a threshold is configured fails and allocates
  nothing, so the first submission after \<open>setEncryptedThreshold\<close> gets identifier 1. On
  the contract the submission on the freshly deployed storage succeeds: it allocates
  identifier 1 and registers request 5, and the submission made after the threshold is set
  gets identifier 2.
\<close>

theorem submit_without_threshold_counterexample:
  "\<not> thresholdSet (constructor 1) \<and>
   submitEncryptedMessage (constructor 1) 11 22 1000 5 =
     Inr (after demoLib 1 [SubmitEncryptedMessage 11 22 1000 5],
          [MessageSubmitted 1 1000, DecryptionRequested 1]) \<and>
   messageCount (after demoLib 1 [SubmitEncryptedMessage 11 22 1000 5]) = 1 \<and>
   requestToMessageId (after demoLib 1 [SubmitEncryptedMessage 11 22 1000 5]) 5 = 1 \<and>
   submittedIds (logged demoLib 1
     [SubmitEncryptedMessage 11 22 1000 5, SetEncryptedThreshold 1 77,
      SubmitEncryptedMessage 33 44 1001 6]) = [1, 2]"
  by (simp add: contract_defs)

text \<open>
  C2, amended: \<open>submitEncryptedMessage\<close> does not read \<open>thresholdSet\<close>. Whether or not a
  threshold has been configured, a submission for which the library issues a request
  succeeds unless the counter overflows: it
  advances \<open>messageCount\<close> by one, stores the record and the empty alert under the new
  identifier and registers the request, so a submission made after the threshold is set
  gets the identifier after those already allocated.
\<close>

theorem submit_ignores_threshold:
  assumes "messageCount s + 1 < 2 ^ 256"
  shows "submitEncryptedMessage s encContent encRiskScore now reqId =
           Inr (s\<lparr>messageCount := messageCount s + 1,
                  encryptedMessages := (encryptedMessages s)(messageCount s + 1 :=
                    \<lparr>id_m = messageCount s + 1, encryptedContent = encContent,
                     encryptedRiskScore = encRiskScore, timestamp = now,
                     isHighRisk = False\<rparr>),
                  decryptedAlerts := (decryptedAlerts s)(messageCount s + 1 :=
                    \<lparr>content = [], riskScore = 0, isDecrypted = False\<rparr>),
                  requestToMessageId := (requestToMessageId s)(reqId := messageCount s + 1)\<rparr>,
                [MessageSubmitted (messageCount s + 1) now,
                 DecryptionRequested (messageCount s + 1)])"
  using assms by (simp add: submitEncryptedMessage_def assessRisk_def Let_def)

theorem submit_ignores_threshold_witness:
  "messageCount (constructor 1) + 1 < 2 ^ 256 \<and> \<not> thresholdSet (constructor 1) \<and>
   submitEncryptedMessage (constructor 1) 11 22 1000 5 =
     Inr ((constructor 1)\<lparr>messageCount := 1,
            encryptedMessages := (encryptedMessages (constructor 1))(1 :=
              \<lparr>id_m = 1, encryptedContent = 11, encryptedRiskScore = 22, timestamp = 1000,
               isHighRisk = False\<rparr>),
            decryptedAlerts := (decryptedAlerts (constructor 1))(1 :=
              \<lparr>content = [], riskScore = 0, isDecrypted = False\<rparr>),
            requestToMessageId := (requestToMessageId (constructor 1))(5 := 1)\<rparr>,
          [MessageSubmitted 1 1000, DecryptionRequested 1])"
proof -
  have h: "messageCount (constructor 1) + 1 < 2 ^ 256"
    by (simp add: constructor_def)
  have z: "messageCount (constructor 1) = 0" "\<not> thresholdSet (constructor 1)"
    by (simp_all add: constructor_def)
  from submit_ignores_threshold [OF h, of 11 22 1000 5] h z show ?thesis
    by simp
qed

subsection \<open>C3: a callback whose proof is rejected\<close>

text \<open>
  C3: for a registered request identifier, a callback whose proof
  \<open>FHE.checkSignatures\<close> rejects fails with \<open>InvalidProof\<close>, in \<open>handleRiskAssessment\<close> and
  (for a high-risk record) in \<open>handleAlertDecryption\<close>; the transaction leaves the storage,
  and with it every record, every alert and the entry of the request, as it was; and a
  later callback for the same identifier with a proof that is accepted and a payload that
  decodes succeeds, writing the flag or the alert.
\<close>

theorem invalid_proof_keeps_request:
  assumes reg: "requestToMessageId s requestId \<noteq> 0"
    and bad: "\<not> checkSignatures lib requestId cleartexts proof"
    and good_flag: "checkSignatures lib requestId flagPayload flagProof"
    and good_text: "checkSignatures lib requestId textPayload textProof"
  shows "handleRiskAssessment lib s requestId cleartexts proof = Inl InvalidProof \<and>
         transact lib s (HandleRiskAssessment requestId cleartexts proof) = (s, []) \<and>
         (decodeBool lib flagPayload = Some high \<longrightarrow>
            handleRiskAssessment lib
              (fst (transact lib s (HandleRiskAssessment requestId cleartexts proof)))
              requestId flagPayload flagProof =
            Inr (s\<lparr>encryptedMessages := (encryptedMessages s)(requestToMessageId s requestId :=
                     (encryptedMessages s (requestToMessageId s requestId))
                       \<lparr>isHighRisk := high\<rparr>)\<rparr>,
                 RiskAssessmentComplete (requestToMessageId s requestId) high #
                   (if high then [AlertGenerated (requestToMessageId s requestId)] else []))) \<and>
         (isHighRisk (encryptedMessages s (requestToMessageId s requestId)) \<longrightarrow>
            handleAlertDecryption lib s requestId cleartexts proof = Inl InvalidProof \<and>
            transact lib s (HandleAlertDecryption requestId cleartexts proof) = (s, []) \<and>
            (decodeString lib textPayload = Some plain \<longrightarrow>
               handleAlertDecryption lib
                 (fst (transact lib s (HandleAlertDecryption requestId cleartexts proof)))
                 requestId textPayload textProof =
               Inr (s\<lparr>decryptedAlerts := (decryptedAlerts s)(requestToMessageId s requestId :=
                        \<lparr>content = plain, riskScore = 0, isDecrypted = True\<rparr>)\<rparr>,
                    [AlertDecrypted (requestToMessageId s requestId)])))"
proof -
  have risk: "handleRiskAssessment lib s requestId cleartexts proof = Inl InvalidProof"
    using reg bad by (simp add: handleRiskAssessment_def Let_def)
  then have risk_tx: "transact lib s (HandleRiskAssessment requestId cleartexts proof) = (s, [])"
    by (simp add: transact_def)
  have risk_later: "handleRiskAssessment lib s requestId flagPayload flagProof =
      Inr (s\<lparr>encryptedMessages := (encryptedMessages s)(requestToMessageId s requestId :=
               (encryptedMessages s (requestToMessageId s requestId))\<lparr>isHighRisk := high\<rparr>)\<rparr>,
           RiskAssessmentComplete (requestToMessageId s requestId) high #
             (if high then [AlertGenerated (requestToMessageId s requestId)] else []))"
    if "decodeBool lib flagPayload = Some high"
    using reg good_flag that by (simp add: handleRiskAssessment_def Let_def)
  have alert: "handleAlertDecryption lib s requestId cleartexts proof = Inl InvalidProof"
    if "isHighRisk (encryptedMessages s (requestToMessageId s requestId))"
    using reg bad that by (simp add: handleAlertDecryption_def Let_def)
  have alert_tx: "transact lib s (HandleAlertDecryption requestId cleartexts proof) = (s, [])"
    if "isHighRisk (encryptedMessages s (requestToMessageId s requestId))"
    using alert [OF that] by (simp add: transact_def)
  have alert_later: "handleAlertDecryption lib s requestId textPayload textProof =
      Inr (s\<lparr>decryptedAlerts := (decryptedAlerts s)(requestToMessageId s requestId :=
               \<lparr>content = plain, riskScore = 0, isDecrypted = True\<rparr>)\<rparr>,
           [AlertDecrypted (requestToMessageId s requestId)])"
    if "isHighRisk (encryptedMessages s (requestToMessageId s requestId))"
      and "decodeString lib textPayload = Some plain"
    using reg good_text that by (simp add: handleAlertDecryption_def Let_def)
  show ?thesis
    using risk risk_tx risk_later alert alert_tx alert_later by simp
qed

theorem invalid_proof_keeps_request_witness:
  "requestToMessageId (after demoLib 1 [SubmitEncryptedMessage 11 22 1000 5]) 5 \<noteq> 0 \<and>
   \<not> checkSignatures demoLib 5 [1] [0] \<and> checkSignatures demoLib 5 [1] [1] \<and>
   decodeBool demoLib [1] = Some True \<and>
   handleRiskAssessment demoLib
     (after demoLib 1 [SubmitEncryptedMessage 11 22 1000 5]) 5 [1] [0] = Inl InvalidProof \<and>
   handleRiskAssessment demoLib
     (fst (transact demoLib (after demoLib 1 [SubmitEncryptedMessage 11 22 1000 5])
        (HandleRiskAssessment 5 [1] [0]))) 5 [1] [1] =
     Inr (after demoLib 1 [SubmitEncryptedMessage 11 22 1000 5, HandleRiskAssessment 5 [1] [1]],
          [RiskAssessmentComplete 1 True, AlertGenerated 1]) \<and>
   requestToMessageId
     (after demoLib 1 [SubmitEncryptedMessage 11 22 1000 5, HandleRiskAssessment 5 [1] [1],
        RequestAlertDecryption 1 1 6]) 6 \<noteq> 0 \<and>
   isHighRisk (encryptedMessages
     (after demoLib 1 [SubmitEncryptedMessage 11 22 1000 5, HandleRiskAssessment 5 [1] [1],
        RequestAlertDecryption 1 1 6]) 1) \<and>
   \<not> checkSignatures demoLib 6 [104, 105] [0] \<and> checkSignatures demoLib 6 [104, 105] [1] \<and>
   decodeString demoLib [104, 105] = Some ''hi'' \<and>
   handleAlertDecryption demoLib
     (after demoLib 1 [SubmitEncryptedMessage 11 22 1000 5, HandleRiskAssessment 5 [1] [1],
        RequestAlertDecryption 1 1 6]) 6 [104, 105] [0] = Inl InvalidProof \<and>
   handleAlertDecryption demoLib
     (fst (transact demoLib
        (after demoLib 1 [SubmitEncryptedMessage 11 22 1000 5, HandleRiskAssessment 5 [1] [1],
           RequestAlertDecryption 1 1 6])
        (HandleAlertDecryption 6 [104, 105] [0]))) 6 [104, 105] [1] =
     Inr (after demoLib 1 [SubmitEncryptedMessage 11 22 1000 5, HandleRiskAssessment 5 [1] [1],
            RequestAlertDecryption 1 1 6, HandleAlertDecryption 6 [104, 105] [1]],
          [AlertDecrypted 1])"
proof -
  let ?s = "after demoLib 1 [SubmitEncryptedMessage 11 22 1000 5]"
  let ?t = "after demoLib 1 [SubmitEncryptedMessage 11 22 1000 5,
    HandleRiskAssessment 5 [1] [1], RequestAlertDecryption 1 1 6]"
  have lib: "\<not> checkSignatures demoLib 5 [1] [0]" "checkSignatures demoLib 5 [1] [1]"
    "checkSignatures demoLib 5 [104, 105] [1]"
    "\<not> checkSignatures demoLib 6 [104, 105] [0]" "checkSignatures demoLib 6 [1] [1]"
    "checkSignatures demoLib 6 [104, 105] [1]"
    "decodeBool demoLib [1] = Some True" "decodeString demoLib [104, 105] = Some ''hi''"
    by (simp_all add: demoLib_def)
  have s5: "requestToMessageId ?s 5 = 1"
    by (simp add: contract_defs)
  then have reg5: "requestToMessageId ?s 5 \<noteq> 0"
    by simp
  have t6: "requestToMessageId ?t 6 = 1"
    by (simp add: contract_defs)
  then have reg6: "requestToMessageId ?t 6 \<noteq> 0"
    by simp
  have high: "isHighRisk (encryptedMessages ?t 1)"
    by (simp add: contract_defs)
  have s_next: "?s\<lparr>encryptedMessages := (encryptedMessages ?s)(1 :=
      (encryptedMessages ?s 1)\<lparr>isHighRisk := True\<rparr>)\<rparr> =
    after demoLib 1 [SubmitEncryptedMessage 11 22 1000 5, HandleRiskAssessment 5 [1] [1]]"
    by (simp add: contract_defs)
  have t_next: "?t\<lparr>decryptedAlerts := (decryptedAlerts ?t)(1 :=
      \<lparr>content = ''hi'', riskScore = 0, isDecrypted = True\<rparr>)\<rparr> =
    after demoLib 1 [SubmitEncryptedMessage 11 22 1000 5, HandleRiskAssessment 5 [1] [1],
      RequestAlertDecryption 1 1 6, HandleAlertDecryption 6 [104, 105] [1]]"
    by (simp add: contract_defs)
  from invalid_proof_keeps_request [OF reg5 lib(1) lib(2) lib(3), of True "''hi''"]
    invalid_proof_keeps_request [OF reg6 lib(4) lib(5) lib(6), of True "''hi''"]
    lib reg5 reg6 high s5 t6 s_next t_next
  show ?thesis by auto
qed

subsection \<open>C4: the identifiers of submitted records\<close>

text \<open>
  C4: after any list of transactions on a freshly deployed contract, the identifiers
  announced by the successful submissions (the events \<open>MessageSubmitted\<close>, in order) are
  1, 2, ... up to \<open>messageCount\<close>: unique, strictly increasing from 1, never 0. A
  successful \<open>submitEncryptedMessage\<close> advances \<open>messageCount\<close> by exactly one, announces
  the new count as the identifier, and stores under it a record with \<open>isHighRisk = false\<close>
  and an alert with empty content and \<open>isDecrypted = false\<close>.
\<close>

theorem submit_identifiers:
  "submittedIds (logged lib d cs) = [1 ..< Suc (messageCount (after lib d cs))] \<and>
   distinct (submittedIds (logged lib d cs)) \<and>
   sorted_wrt (<) (submittedIds (logged lib d cs)) \<and>
   0 \<notin> set (submittedIds (logged lib d cs)) \<and>
   (submitEncryptedMessage s encContent encRiskScore now reqId = Inr (s', evs) \<longrightarrow>
      messageCount s' = messageCount s + 1 \<and>
      submittedIds evs = [messageCount s + 1] \<and>
      encryptedMessages s' (messageCount s + 1) =
        \<lparr>id_m = messageCount s + 1, encryptedContent = encContent,
         encryptedRiskScore = encRiskScore, timestamp = now, isHighRisk = False\<rparr> \<and>
      decryptedAlerts s' (messageCount s + 1) =
        \<lparr>content = [], riskScore = 0, isDecrypted = False\<rparr>)"
proof -
  have ids: "submittedIds (logged lib d cs) = [1 ..< Suc (messageCount (after lib d cs))]"
    using run_submittedIds [of "constructor d" lib cs]
    by (simp add: logged_def after_def) (simp add: constructor_def)
  have step: "messageCount s' = messageCount s + 1 \<and>
      submittedIds evs = [messageCount s + 1] \<and>
      encryptedMessages s' (messageCount s + 1) =
        \<lparr>id_m = messageCount s + 1, encryptedContent = encContent,
         encryptedRiskScore = encRiskScore, timestamp = now, isHighRisk = False\<rparr> \<and>
      decryptedAlerts s' (messageCount s + 1) =
        \<lparr>content = [], riskScore = 0, isDecrypted = False\<rparr>"
    if "submitEncryptedMessage s encContent encRiskScore now reqId = Inr (s', evs)"
    using submitEncryptedMessage_Inr [OF that] by simp
  have "distinct [1 ..< Suc (messageCount (after lib d cs))]"
    "sorted_wrt (<) [1 ..< Suc (messageCount (after lib d cs))]"
    "0 \<notin> set [1 ..< Suc (messageCount (after lib d cs))]"
    by (simp_all del: upt_Suc)
  with ids step show ?thesis
    by (simp del: upt_Suc)
qed

theorem submit_identifiers_witness:
  "submitEncryptedMessage (after demoLib 1 [SubmitEncryptedMessage 11 22 1000 5]) 33 44 1001 6 =
     Inr (after demoLib 1
            [SubmitEncryptedMessage 11 22 1000 5, SubmitEncryptedMessage 33 44 1001 6],
          [MessageSubmitted 2 1001, DecryptionRequested 2]) \<and>
   messageCount (after demoLib 1 [SubmitEncryptedMessage 11 22 1000 5]) = 1 \<and>
   messageCount (after demoLib 1
     [SubmitEncryptedMessage 11 22 1000 5, SubmitEncryptedMessage 33 44 1001 6]) = 2 \<and>
   encryptedMessages (after demoLib 1
     [SubmitEncryptedMessage 11 22 1000 5, SubmitEncryptedMessage 33 44 1001 6]) 2 =
     \<lparr>id_m = 2, encryptedContent = 33, encryptedRiskScore = 44, timestamp = 1001,
      isHighRisk = False\<rparr> \<and>
   decryptedAlerts (after demoLib 1
     [SubmitEncryptedMessage 11 22 1000 5, SubmitEncryptedMessage 33 44 1001 6]) 2 =
     \<lparr>content = [], riskScore = 0, isDecrypted = False\<rparr> \<and>
   submittedIds (logged demoLib 1
     [SubmitEncryptedMessage 11 22 1000 5, SubmitEncryptedMessage 33 44 1001 6]) = [1, 2]"
proof -
  let ?s = "after demoLib 1 [SubmitEncryptedMessage 11 22 1000 5]"
  let ?s' = "after demoLib 1
    [SubmitEncryptedMessage 11 22 1000 5, SubmitEncryptedMessage 33 44 1001 6]"
  have h: "submitEncryptedMessage ?s 33 44 1001 6 =
      Inr (?s', [MessageSubmitted 2 1001, DecryptionRequested 2])"
    by (simp add: contract_defs)
  have n: "messageCount ?s = 1" "messageCount ?s + 1 = 2" "messageCount ?s' = 2"
    by (simp_all add: contract_defs)
  have ids: "[1 ..< Suc 2] = [1, 2 :: nat]"
    by (simp add: upt_rec)
  from submit_identifiers [of demoLib 1
      "[SubmitEncryptedMessage 11 22 1000 5, SubmitEncryptedMessage 33 44 1001 6]"
      ?s 33 44 1001 6 ?s' "[MessageSubmitted 2 1001, DecryptionRequested 2]"]
  show ?thesis unfolding n(2,3) ids using h n(1) by blast
qed

subsection \<open>C5: a reveal request for a record that is not high-risk\<close>

text \<open>
  C5 as stated: \<open>requestAlertDecryption\<close> on a record that was never marked high-risk
  fails with "Not high risk" whoever calls. On the contract the modifier \<open>onlyCounselor\<close>
  runs first: the caller 2, who is not the counselor 1, gets "Unauthorized" for the record
  1 that is not high-risk.
\<close>

theorem reveal_request_counterexample:
  "\<not> isHighRisk (encryptedMessages
       (after demoLib 1 [SubmitEncryptedMessage 11 22 1000 5]) 1) \<and>
   counselor (after demoLib 1 [SubmitEncryptedMessage 11 22 1000 5]) = 1 \<and>
   requestAlertDecryption (after demoLib 1 [SubmitEncryptedMessage 11 22 1000 5]) 2 1 6 =
     Inl Unauthorized \<and>
   requestAlertDecryption (after demoLib 1 [SubmitEncryptedMessage 11 22 1000 5]) 2 1 6 \<noteq>
     Inl NotHighRisk"
  by (simp add: contract_defs)

text \<open>
  C5, amended: \<open>requestAlertDecryption\<close> on a record whose \<open>isHighRisk\<close> flag is false
  fails for every caller: with "Not high risk" when the caller is the counselor, and with
  "Unauthorized" when it is anyone else.
\<close>

theorem reveal_request_not_high_risk:
  assumes "\<not> isHighRisk (encryptedMessages s messageId)"
  shows "requestAlertDecryption s sender messageId reqId =
           (if sender = counselor s then Inl NotHighRisk else Inl Unauthorized)"
  using assms by (simp add: requestAlertDecryption_def)

theorem reveal_request_not_high_risk_witness:
  "\<not> isHighRisk (encryptedMessages
       (after demoLib 1 [SubmitEncryptedMessage 11 22 1000 5]) 1) \<and>
   requestAlertDecryption (after demoLib 1 [SubmitEncryptedMessage 11 22 1000 5]) 1 1 6 =
     Inl NotHighRisk \<and>
   requestAlertDecryption (after demoLib 1 [SubmitEncryptedMessage 11 22 1000 5]) 2 1 6 =
     Inl Unauthorized"
proof -
  let ?s = "after demoLib 1 [SubmitEncryptedMessage 11 22 1000 5]"
  have h: "\<not> isHighRisk (encryptedMessages ?s 1)"
    by (simp add: contract_defs)
  have c: "counselor ?s = 1"
    by (simp add: contract_defs)
  from reveal_request_not_high_risk [OF h, of 1 6]
    reveal_request_not_high_risk [OF h, of 2 6] h c
  show ?thesis by simp
qed

subsection \<open>C6: writing the content of an alert that is already revealed\<close>

text \<open>
  C6 as stated: \<open>handleAlertDecryption\<close> fails with "Already decrypted" when the alert is
  already decrypted, so its content is written at most once. On the contract it does not:
  once the alert of record 1 has been decrypted through request 6, the same callback is
  accepted again, and a callback for request 6 with another payload replaces the content.
\<close>

theorem revealed_alert_counterexample:
  "isDecrypted (decryptedAlerts
     (after demoLib 1 [SubmitEncryptedMessage 11 22 1000 5, HandleRiskAssessment 5 [1] [1],
        RequestAlertDecryption 1 1 6, HandleAlertDecryption 6 [104, 105] [1]]) 1) \<and>
   content (decryptedAlerts
     (after demoLib 1 [SubmitEncryptedMessage 11 22 1000 5, HandleRiskAssessment 5 [1] [1],
        RequestAlertDecryption 1 1 6, HandleAlertDecryption 6 [104, 105] [1]]) 1) = ''hi'' \<and>
   handleAlertDecryption demoLib
     (after demoLib 1 [SubmitEncryptedMessage 11 22 1000 5, HandleRiskAssessment 5 [1] [1],
        RequestAlertDecryption 1 1 6, HandleAlertDecryption 6 [104, 105] [1]])
     6 [104, 105] [1] =
   Inr (after demoLib 1 [SubmitEncryptedMessage 11 22 1000 5, HandleRiskAssessment 5 [1] [1],
          RequestAlertDecryption 1 1 6, HandleAlertDecryption 6 [104, 105] [1]],
        [AlertDecrypted 1]) \<and>
   handleAlertDecryption demoLib
     (after demoLib 1 [SubmitEncryptedMessage 11 22 1000 5, HandleRiskAssessment 5 [1] [1],
        RequestAlertDecryption 1 1 6, HandleAlertDecryption 6 [104, 105] [1]])
     6 [110, 111] [1] =
   Inr (after demoLib 1 [SubmitEncryptedMessage 11 22 1000 5, HandleRiskAssessment 5 [1] [1],
          RequestAlertDecryption 1 1 6, HandleAlertDecryption 6 [110, 111] [1]],
        [AlertDecrypted 1]) \<and>
   content (decryptedAlerts
     (after demoLib 1 [SubmitEncryptedMessage 11 22 1000 5, HandleRiskAssessment 5 [1] [1],
        RequestAlertDecryption 1 1 6, HandleAlertDecryption 6 [110, 111] [1]]) 1) = ''no''"
  by (simp add: contract_defs)

text \<open>
  C6, amended: the check for an alert that is already decrypted is made by
  \<open>requestAlertDecryption\<close>, which fails with "Already decrypted" when the counselor asks
  for a high-risk record whose alert is decrypted; \<open>handleAlertDecryption\<close> has no such
  failure. After any list of transactions on a freshly deployed contract, an
  \<open>isDecrypted\<close> flag that is true stays true under every further transaction: it goes
  from false to true at most once per record and never back.
\<close>

theorem revealed_flag_is_checked_on_request:
  "(isHighRisk (encryptedMessages s m) \<and> isDecrypted (decryptedAlerts s m) \<longrightarrow>
      requestAlertDecryption s (counselor s) m reqId = Inl AlreadyDecrypted) \<and>
   handleAlertDecryption lib s requestId cleartexts proof \<noteq> Inl AlreadyDecrypted \<and>
   (isDecrypted (decryptedAlerts (after lib d cs) m) \<longrightarrow>
      isDecrypted (decryptedAlerts (after lib d (cs @ cs')) m))"
proof -
  have request: "requestAlertDecryption s (counselor s) m reqId = Inl AlreadyDecrypted"
    if "isHighRisk (encryptedMessages s m)" and "isDecrypted (decryptedAlerts s m)"
    using that by (simp add: requestAlertDecryption_def)
  have handler: "handleAlertDecryption lib s requestId cleartexts proof \<noteq> Inl AlreadyDecrypted"
    by (simp add: handleAlertDecryption_def Let_def split: option.splits)
  have stays: "isDecrypted (decryptedAlerts (after lib d (cs @ cs')) m)"
    if "isDecrypted (decryptedAlerts (after lib d cs) m)"
    using run_isDecrypted [OF wellformed_after that] by (simp add: after_append)
  from request handler stays show ?thesis
    by blast
qed

theorem revealed_flag_is_checked_on_request_witness:
  "isHighRisk (encryptedMessages
     (after demoLib 1 [SubmitEncryptedMessage 11 22 1000 5, HandleRiskAssessment 5 [1] [1],
        RequestAlertDecryption 1 1 6, HandleAlertDecryption 6 [104, 105] [1]]) 1) \<and>
   isDecrypted (decryptedAlerts
     (after demoLib 1 [SubmitEncryptedMessage 11 22 1000 5, HandleRiskAssessment 5 [1] [1],
        RequestAlertDecryption 1 1 6, HandleAlertDecryption 6 [104, 105] [1]]) 1) \<and>
   requestAlertDecryption
     (after demoLib 1 [SubmitEncryptedMessage 11 22 1000 5, HandleRiskAssessment 5 [1] [1],
        RequestAlertDecryption 1 1 6, HandleAlertDecryption 6 [104, 105] [1]]) 1 1 7 =
     Inl AlreadyDecrypted \<and>
   isDecrypted (decryptedAlerts
     (after demoLib 1 ([SubmitEncryptedMessage 11 22 1000 5, HandleRiskAssessment 5 [1] [1],
        RequestAlertDecryption 1 1 6, HandleAlertDecryption 6 [104, 105] [1]] @
        [SubmitEncryptedMessage 33 44 1001 8, HandleRiskAssessment 5 [0] [1]])) 1)"
proof -
  let ?cs = "[SubmitEncryptedMessage 11 22 1000 5, HandleRiskAssessment 5 [1] [1],
    RequestAlertDecryption 1 1 6, HandleAlertDecryption 6 [104, 105] [1]]"
  have h: "isHighRisk (encryptedMessages (after demoLib 1 ?cs) 1)"
    "isDecrypted (decryptedAlerts (after demoLib 1 ?cs) 1)"
    "counselor (after demoLib 1 ?cs) = 1"
    by (simp_all add: contract_defs)
  from revealed_flag_is_checked_on_request [of "after demoLib 1 ?cs" 1 7 demoLib 0 "[]" "[]" 1
      ?cs "[SubmitEncryptedMessage 33 44 1001 8, HandleRiskAssessment 5 [0] [1]]"] h
  show ?thesis by simp
qed

subsection \<open>C7: reading an alert that is not revealed\<close>

text \<open>
  C7: after any list of transactions on a freshly deployed contract, \<open>getDecryptedAlert\<close>
  called by the counselor returns the pair of the alert's content and its \<open>isDecrypted\<close>
  flag, and when the flag is false the content returned is empty, whatever the
  \<open>isHighRisk\<close> flag of the record is.
\<close>

theorem unrevealed_alert_reads_empty:
  "getDecryptedAlert (after lib d cs) (counselor (after lib d cs)) m =
     Inr (content (decryptedAlerts (after lib d cs) m),
          isDecrypted (decryptedAlerts (after lib d cs) m)) \<and>
   (\<not> isDecrypted (decryptedAlerts (after lib d cs) m) \<longrightarrow>
      getDecryptedAlert (after lib d cs) (counselor (after lib d cs)) m = Inr ([], False))"
proof -
  have "content (decryptedAlerts (after lib d cs) m) = []"
    if "\<not> isDecrypted (decryptedAlerts (after lib d cs) m)"
    using wellformed_after that by (rule wellformed_content)
  then show ?thesis
    by (auto simp: getDecryptedAlert_def)
qed

theorem unrevealed_alert_reads_empty_witness:
  "isHighRisk (encryptedMessages
     (after demoLib 1 [SubmitEncryptedMessage 11 22 1000 5, HandleRiskAssessment 5 [1] [1],
        RequestAlertDecryption 1 1 6]) 1) \<and>
   \<not> isDecrypted (decryptedAlerts
     (after demoLib 1 [SubmitEncryptedMessage 11 22 1000 5, HandleRiskAssessment 5 [1] [1],
        RequestAlertDecryption 1 1 6]) 1) \<and>
   getDecryptedAlert
     (after demoLib 1 [SubmitEncryptedMessage 11 22 1000 5, HandleRiskAssessment 5 [1] [1],
        RequestAlertDecryption 1 1 6]) 1 1 = Inr ([], False)"
proof -
  let ?cs = "[SubmitEncryptedMessage 11 22 1000 5, HandleRiskAssessment 5 [1] [1],
    RequestAlertDecryption 1 1 6]"
  have h: "isHighRisk (encryptedMessages (after demoLib 1 ?cs) 1)"
    "\<not> isDecrypted (decryptedAlerts (after demoLib 1 ?cs) 1)"
    "counselor (after demoLib 1 ?cs) = 1"
    by (simp_all add: contract_defs)
  from unrevealed_alert_reads_empty [of demoLib 1 ?cs 1] h
  show ?thesis by auto
qed

subsection \<open>C8: the threshold is set once, by the counselor\<close>

text \<open>
  C8: \<open>setEncryptedThreshold\<close> fails with "Unauthorized" for every caller other than the
  counselor; called by the counselor while no threshold is set, it stores the threshold and
  sets \<open>thresholdSet\<close>; once \<open>thresholdSet\<close> holds, every call of it fails, and
  \<open>thresholdSet\<close> and the stored threshold stay as they are under every list of
  transactions. A transaction that changes the stored threshold is a call of
  \<open>setEncryptedThreshold\<close> by the counselor on a storage whose threshold was not set. The
  counselor never changes, and no threshold is set on deployment.
\<close>

theorem threshold_is_set_once:
  "(sender \<noteq> counselor s \<longrightarrow> setEncryptedThreshold s sender t = Inl Unauthorized) \<and>
   (\<not> thresholdSet s \<longrightarrow>
      setEncryptedThreshold s (counselor s) t =
        Inr (s\<lparr>encryptedThreshold := t, thresholdSet := True\<rparr>, [])) \<and>
   (thresholdSet s \<longrightarrow>
      setEncryptedThreshold s sender t =
        Inl (if sender \<noteq> counselor s then Unauthorized else ThresholdAlreadySet) \<and>
      thresholdSet (fst (run lib s cs)) \<and>
      encryptedThreshold (fst (run lib s cs)) = encryptedThreshold s) \<and>
   (encryptedThreshold (fst (transact lib s c)) \<noteq> encryptedThreshold s \<longrightarrow>
      \<not> thresholdSet s \<and>
      c = SetEncryptedThreshold (counselor s) (encryptedThreshold (fst (transact lib s c)))) \<and>
   counselor (fst (run lib s cs)) = counselor s \<and>
   \<not> thresholdSet (constructor d)"
proof -
  have change: "\<not> thresholdSet s \<and>
      c = SetEncryptedThreshold (counselor s) (encryptedThreshold (fst (transact lib s c)))"
    if "encryptedThreshold (fst (transact lib s c)) \<noteq> encryptedThreshold s"
  proof (cases "exec lib s c")
    case (Inl e)
    with that show ?thesis by (simp add: transact_def)
  next
    case (Inr r)
    then have "exec lib s c = Inr (fst r, snd r)" "fst (transact lib s c) = fst r"
      by (simp_all add: transact_def)
    with that exec_threshold_change [of lib s c "fst r" "snd r"] show ?thesis
      by simp
  qed
  have kept: "thresholdSet (fst (run lib s cs)) \<and>
      encryptedThreshold (fst (run lib s cs)) = encryptedThreshold s"
    if "thresholdSet s"
    using that by (rule run_threshold)
  from change kept show ?thesis
    by (simp add: setEncryptedThreshold_def run_counselor constructor_def)
qed

theorem threshold_is_set_once_witness:
  "\<not> thresholdSet (constructor 1) \<and>
   setEncryptedThreshold (constructor 1) 2 77 = Inl Unauthorized \<and>
   setEncryptedThreshold (constructor 1) 1 77 =
     Inr (after demoLib 1 [SetEncryptedThreshold 1 77], []) \<and>
   thresholdSet (after demoLib 1 [SetEncryptedThreshold 1 77]) \<and>
   encryptedThreshold (after demoLib 1 [SetEncryptedThreshold 1 77]) = 77 \<and>
   setEncryptedThreshold (after demoLib 1 [SetEncryptedThreshold 1 77]) 1 88 =
     Inl ThresholdAlreadySet \<and>
   encryptedThreshold (fst (run demoLib (after demoLib 1 [SetEncryptedThreshold 1 77])
     [SetEncryptedThreshold 1 88, SubmitEncryptedMessage 11 22 1000 5])) = 77 \<and>
   encryptedThreshold (fst (transact demoLib (constructor 1) (SetEncryptedThreshold 1 77))) \<noteq>
     encryptedThreshold (constructor 1)"
proof -
  let ?s = "after demoLib 1 [SetEncryptedThreshold 1 77]"
  have h: "(2::nat) \<noteq> counselor (constructor 1)" "counselor (constructor 1) = 1"
    "\<not> thresholdSet (constructor 1)" "thresholdSet ?s" "counselor ?s = 1"
    "encryptedThreshold ?s = 77"
    "(constructor 1)\<lparr>encryptedThreshold := 77, thresholdSet := True\<rparr> = ?s"
    "encryptedThreshold (fst (transact demoLib (constructor 1) (SetEncryptedThreshold 1 77))) \<noteq>
       encryptedThreshold (constructor 1)"
    by (simp_all add: contract_defs)
  from threshold_is_set_once [of 2 "constructor 1" 77 demoLib "[]" "SetEncryptedThreshold 1 77" 1]
    threshold_is_set_once [of 1 "constructor 1" 77 demoLib "[]" "SetEncryptedThreshold 1 77" 1]
    threshold_is_set_once [of 1 ?s 88 demoLib
      "[SetEncryptedThreshold 1 88, SubmitEncryptedMessage 11 22 1000 5]"
      "SetEncryptedThreshold 1 88" 1] h
  show ?thesis by auto
qed

subsection \<open>C9: reading an identifier that was never allocated\<close>

text \<open>
  C9 as stated: reading the record or the alert of an identifier that no submission
  allocated fails. On the contract it does not: with one record submitted, the getter of
  \<open>encryptedMessages\<close> returns the zero record for identifier 7, and \<open>getDecryptedAlert\<close>
  called by the counselor returns the empty content and \<open>false\<close>.
\<close>

theorem unallocated_read_counterexample:
  "messageCount (after demoLib 1 [SubmitEncryptedMessage 11 22 1000 5]) = 1 \<and>
   getEncryptedMessage (after demoLib 1 [SubmitEncryptedMessage 11 22 1000 5]) 7 =
     Inr \<lparr>id_m = 0, encryptedContent = 0, encryptedRiskScore = 0, timestamp = 0,
          isHighRisk = False\<rparr> \<and>
   getDecryptedAlert (after demoLib 1 [SubmitEncryptedMessage 11 22 1000 5]) 1 7 =
     Inr ([], False)"
  by (simp add: contract_defs zeroMessage_def zeroAlert_def)

text \<open>
  C9, amended: after any list of transactions on a freshly deployed contract, for an
  identifier that was never allocated (0, or one above \<open>messageCount\<close>) reading does not
  fail for want of the record: the getter of \<open>encryptedMessages\<close> returns the zero record,
  and \<open>getDecryptedAlert\<close> returns the empty content and \<open>false\<close> to the counselor (and
  fails with "Unauthorized" for anyone else).
\<close>

theorem unallocated_reads_zero:
  assumes "messageId = 0 \<or> messageCount (after lib d cs) < messageId"
  shows "getEncryptedMessage (after lib d cs) messageId = Inr zeroMessage \<and>
         getDecryptedAlert (after lib d cs) sender messageId =
           (if sender = d then Inr ([], False) else Inl Unauthorized)"
  using wellformed_unallocated [OF wellformed_after assms]
  by (simp add: getEncryptedMessage_def getDecryptedAlert_def after_counselor zeroAlert_def)

theorem unallocated_reads_zero_witness:
  "((7::nat) = 0 \<or> messageCount (after demoLib 1 [SubmitEncryptedMessage 11 22 1000 5]) < 7) \<and>
   getEncryptedMessage (after demoLib 1 [SubmitEncryptedMessage 11 22 1000 5]) 7 =
     Inr zeroMessage \<and>
   getDecryptedAlert (after demoLib 1 [SubmitEncryptedMessage 11 22 1000 5]) 1 7 =
     Inr ([], False) \<and>
   getDecryptedAlert (after demoLib 1 [SubmitEncryptedMessage 11 22 1000 5]) 2 7 =
     Inl Unauthorized"
proof -
  let ?cs = "[SubmitEncryptedMessage 11 22 1000 5]"
  have h: "(7::nat) = 0 \<or> messageCount (after demoLib 1 ?cs) < 7"
    by (simp add: contract_defs)
  from unallocated_reads_zero [OF h, of 1] unallocated_reads_zero [OF h, of 2] h
  show ?thesis by simp
qed

subsection \<open>C10: what a risk callback changes\<close>

text \<open>
  C10: a successful \<open>handleRiskAssessment\<close> for a request registered for record \<open>m\<close>
  changes the \<open>isHighRisk\<close> flag of record \<open>m\<close> and nothing else: the identifier, the
  content handle, the score handle and the time stamp of record \<open>m\<close>, every other record,
  every alert, \<open>messageCount\<close>, the threshold and its flag, the counselor and the pending
  requests are as before.
\<close>

theorem handleRiskAssessment_frame:
  assumes "handleRiskAssessment lib s requestId cleartexts proof = Inr (s', evs)"
    and "m = requestToMessageId s requestId"
  shows "s' = s\<lparr>encryptedMessages := (encryptedMessages s)(m :=
                 (encryptedMessages s m)\<lparr>isHighRisk := isHighRisk (encryptedMessages s' m)\<rparr>)\<rparr> \<and>
         id_m (encryptedMessages s' m) = id_m (encryptedMessages s m) \<and>
         encryptedContent (encryptedMessages s' m) = encryptedContent (encryptedMessages s m) \<and>
         encryptedRiskScore (encryptedMessages s' m) =
           encryptedRiskScore (encryptedMessages s m) \<and>
         timestamp (encryptedMessages s' m) = timestamp (encryptedMessages s m) \<and>
         (j \<noteq> m \<longrightarrow> encryptedMessages s' j = encryptedMessages s j) \<and>
         decryptedAlerts s' = decryptedAlerts s \<and>
         messageCount s' = messageCount s \<and>
         encryptedThreshold s' = encryptedThreshold s \<and>
         thresholdSet s' = thresholdSet s \<and>
         counselor s' = counselor s \<and>
         requestToMessageId s' = requestToMessageId s"
  using assms(1) unfolding assms(2)
  by (elim handleRiskAssessment_Inr) simp

theorem handleRiskAssessment_frame_witness:
  "handleRiskAssessment demoLib
     (after demoLib 1 [SubmitEncryptedMessage 11 22 1000 5, SubmitEncryptedMessage 33 44 1001 6])
     6 [1] [1] =
   Inr (after demoLib 1 [SubmitEncryptedMessage 11 22 1000 5,
          SubmitEncryptedMessage 33 44 1001 6, HandleRiskAssessment 6 [1] [1]],
        [RiskAssessmentComplete 2 True, AlertGenerated 2]) \<and>
   requestToMessageId
     (after demoLib 1 [SubmitEncryptedMessage 11 22 1000 5, SubmitEncryptedMessage 33 44 1001 6])
     6 = 2 \<and>
   encryptedMessages
     (after demoLib 1 [SubmitEncryptedMessage 11 22 1000 5,
        SubmitEncryptedMessage 33 44 1001 6, HandleRiskAssessment 6 [1] [1]]) 1 =
   encryptedMessages
     (after demoLib 1 [SubmitEncryptedMessage 11 22 1000 5, SubmitEncryptedMessage 33 44 1001 6])
     1 \<and>
   encryptedContent (encryptedMessages
     (after demoLib 1 [SubmitEncryptedMessage 11 22 1000 5,
        SubmitEncryptedMessage 33 44 1001 6, HandleRiskAssessment 6 [1] [1]]) 2) =
   encryptedContent (encryptedMessages
     (after demoLib 1 [SubmitEncryptedMessage 11 22 1000 5, SubmitEncryptedMessage 33 44 1001 6])
     2) \<and>
   decryptedAlerts
     (after demoLib 1 [SubmitEncryptedMessage 11 22 1000 5,
        SubmitEncryptedMessage 33 44 1001 6, HandleRiskAssessment 6 [1] [1]]) =
   decryptedAlerts
     (after demoLib 1 [SubmitEncryptedMessage 11 22 1000 5, SubmitEncryptedMessage 33 44 1001 6])"
proof -
  let ?s = "after demoLib 1
    [SubmitEncryptedMessage 11 22 1000 5, SubmitEncryptedMessage 33 44 1001 6]"
  let ?s' = "after demoLib 1 [SubmitEncryptedMessage 11 22 1000 5,
    SubmitEncryptedMessage 33 44 1001 6, HandleRiskAssessment 6 [1] [1]]"
  have h: "handleRiskAssessment demoLib ?s 6 [1] [1] =
      Inr (?s', [RiskAssessmentComplete 2 True, AlertGenerated 2])"
    by (simp add: contract_defs)
  have m: "2 = requestToMessageId ?s 6"
    by (simp add: contract_defs)
  from handleRiskAssessment_frame [OF h m, of 1] h m [symmetric]
  show ?thesis by simp
qed

end
